theory Spec2Isabelle
  imports Complex_Main
begin

section \<open>Numbers\<close>

text \<open>
  A JavaScript number is modelled as a real number with exact arithmetic; lengths of
  strings and of token arrays are natural numbers, their differences integers.
  \<^verbatim>\<open>Math.round\<close> returns the nearest integer and rounds a half towards plus
  infinity, that is \<open>floor (x + 1/2)\<close>.
\<close>

definition Math_round :: "real \<Rightarrow> int" where
  "Math_round x = \<lfloor>x + 1 / 2\<rfloor>"

text \<open>The idiom \<^verbatim>\<open>Math.round(x * 10) / 10\<close>: one decimal place.\<close>

definition round1 :: "real \<Rightarrow> real" where
  "round1 x = real_of_int (Math_round (x * 10)) / 10"

section \<open>Collaborators outside the sources\<close>

text \<open>
  \<^verbatim>\<open>html-filter.js\<close> hands every nonempty document to a DOM library (DOMParser in
  the browser, cheerio under Node), removes elements there and reads the text or the
  markup back. That library is a parameter of the model: a function of the document,
  the flag \<^verbatim>\<open>ignoreNavFooter\<close> and the flag \<^verbatim>\<open>returnText\<close>.

  \<^verbatim>\<open>tokenizer.js\<close> is imported by the sources but is not among them. Its
  \<^verbatim>\<open>tokenize(text, mode)\<close> is a parameter of the model as well: a function of the
  text and the mode string to the token array.
\<close>

type_synonym domLibrary = "string \<Rightarrow> bool \<Rightarrow> bool \<Rightarrow> string"

type_synonym tokenizer = "string \<Rightarrow> string \<Rightarrow> string list"

section \<open>html-filter.js\<close>

definition filterHtmlContent :: "domLibrary \<Rightarrow> string \<Rightarrow> bool \<Rightarrow> bool \<Rightarrow> string" where
  "filterHtmlContent domLib htmlContent ignoreNav returnText =
     (if htmlContent = [] then []
      else domLib htmlContent ignoreNav returnText)"

definition stripTagsToText :: "domLibrary \<Rightarrow> string \<Rightarrow> bool \<Rightarrow> string" where
  "stripTagsToText domLib htmlContent ignoreNav = filterHtmlContent domLib htmlContent ignoreNav True"

section \<open>tokenizer.js and diff-engine.js\<close>

text \<open>
  Modelled from the spec: \<^verbatim>\<open>countWords\<close> of the missing \<^verbatim>\<open>tokenizer.js\<close>,
  "length of the respective tokenization" in word mode (section 4.1).
\<close>

definition countWords :: "tokenizer \<Rightarrow> string \<Rightarrow> nat" where
  "countWords tok txt = length (tok txt ''word'')"

text \<open>
  Modelled from the spec: the dynamic-programming table of the missing
  \<^verbatim>\<open>diff-engine.js\<close> (section 4.2). \<open>lcsTable xs ys i j\<close> is the entry
  \<^verbatim>\<open>dp[i][j]\<close> over the first \<open>i\<close> tokens of the first sequence and the first
  \<open>j\<close> tokens of the second: \<^verbatim>\<open>dp[i-1][j-1] + 1\<close> if token \<open>i\<close> of sequence 1 equals
  token \<open>j\<close> of sequence 2, else \<^verbatim>\<open>max(dp[i-1][j], dp[i][j-1])\<close>; row 0 and column 0
  are 0. The token-to-integer mapping of the spec only speeds up the equality test and
  is not modelled.
\<close>

fun lcsTable :: "'a list \<Rightarrow> 'a list \<Rightarrow> nat \<Rightarrow> nat \<Rightarrow> nat" where
  "lcsTable xs ys 0 j = 0"
| "lcsTable xs ys (Suc i) 0 = 0"
| "lcsTable xs ys (Suc i) (Suc j) =
     (if xs ! i = ys ! j then lcsTable xs ys i j + 1
      else max (lcsTable xs ys i (Suc j)) (lcsTable xs ys (Suc i) j))"

definition lcsLength :: "'a list \<Rightarrow> 'a list \<Rightarrow> nat" where
  "lcsLength xs ys = lcsTable xs ys (length xs) (length ys)"

text \<open>
  Modelled from the spec: \<^verbatim>\<open>calculateSimilarity(text1, text2, mode)\<close> of the
  missing \<^verbatim>\<open>diff-engine.js\<close> (section 4.2): 100 when both texts tokenize
  identically (both empty included), 0 when the token sequences share no common
  subsequence, otherwise \<^verbatim>\<open>2 * |LCS| / (|seq1| + |seq2|) * 100\<close> rounded to one
  decimal.
\<close>

definition calculateSimilarity :: "tokenizer \<Rightarrow> string \<Rightarrow> string \<Rightarrow> string \<Rightarrow> real" where
  "calculateSimilarity tok text1 text2 mode =
     (let seq1 = tok text1 mode;
          seq2 = tok text2 mode;
          lcs = lcsLength seq1 seq2
      in if seq1 = seq2 then 100
         else if lcs = 0 then 0
         else round1 (2 * real lcs / (real (length seq1) + real (length seq2)) * 100))"

section \<open>Records\<close>

record Options =
  ignoreNavFooter :: "bool option"
  includeScore :: "bool option"

text \<open>A destructuring default \<^verbatim>\<open>{ flag = true } = options\<close>.\<close>

definition orTrue :: "bool option \<Rightarrow> bool" where
  "orTrue flag = (case flag of None \<Rightarrow> True | Some b \<Rightarrow> b)"

record Breakdown =
  citationReadability :: real
  similarity :: real
  contentGain :: real

record WordCount =
  initial :: nat
  final :: nat
  difference :: int

text \<open>
  The metrics object. Its two display strings \<^verbatim>\<open>contentGainFormatted\<close> and
  \<^verbatim>\<open>missingWordsFormatted\<close> render numbers as text, feed no other field, and are
  left out. \<open>CoreMetrics\<close> is the part that \<^verbatim>\<open>getCitationReadiness\<close> copies.
\<close>

record CoreMetrics =
  contentGain :: real
  missingWords :: nat
  citationReadability :: real
  similarity :: real

record Metrics = CoreMetrics +
  wordCount :: WordCount

record ScoreSummary =
  score :: int
  category :: string
  description :: string

text \<open>The result of \<^verbatim>\<open>getCitationReadiness\<close>.\<close>

record Readiness = ScoreSummary +
  metrics :: CoreMetrics
  recommendations :: "string list"

text \<open>
  The result of \<^verbatim>\<open>analyzeContentDifference\<close>. The diff reports, the hashes and the
  percentage string of the source object do not feed the metrics and are left out.
\<close>

record Report =
  initialText :: string
  finalText :: string
  metrics :: Metrics

record Analysis = Report +
  initialTextLength :: nat
  finalTextLength :: nat
  textRetention :: real

record VisibilityScore = ScoreSummary +
  breakdown :: Breakdown

text \<open>
  The result of \<^verbatim>\<open>analyzeVisibility\<close>; the score object is absent when
  \<^verbatim>\<open>includeScore\<close> is false.
\<close>

record Visibility = Report +
  visibilityScore :: "ScoreSummary option"

section \<open>analyzer.js\<close>

definition calculateCitationReadability :: "nat \<Rightarrow> nat \<Rightarrow> real" where
  "calculateCitationReadability initialWordCount finalWordCount =
     (if finalWordCount = 0 then 100
      else min 100 ((real initialWordCount / real finalWordCount) * 100))"

definition analyzeContentDifference ::
  "domLibrary \<Rightarrow> tokenizer \<Rightarrow> string \<Rightarrow> string \<Rightarrow> Options \<Rightarrow> Analysis" where
  "analyzeContentDifference domLib tok initHtml finHtml options =
     (let ignoreNav = orTrue (ignoreNavFooter options);
          initText = stripTagsToText domLib initHtml ignoreNav;
          finText = stripTagsToText domLib finHtml ignoreNav;
          initTextLength = length initText;
          finTextLength = length finText;
          retention = (if finTextLength > 0
                       then real initTextLength / real finTextLength else 0);
          initTokens = tok initText ''word'';
          finTokens = tok finText ''word'';
          gain = (if length initTokens > 0
                  then real (length finTokens) / real (length initTokens) else 1);
          missing = nat \<bar>int (length finTokens) - int (length initTokens)\<bar>;
          readability = calculateCitationReadability (length initTokens) (length finTokens);
          sim = calculateSimilarity tok initText finText ''word''
      in \<lparr> initialText = initText,
           finalText = finText,
           Report.metrics = \<lparr> CoreMetrics.contentGain = round1 gain,
                       missingWords = missing,
                       CoreMetrics.citationReadability = real_of_int (Math_round readability),
                       CoreMetrics.similarity = round1 sim,
                       wordCount = \<lparr> initial = length initTokens,
                                     final = length finTokens,
                                     difference = int (length finTokens) - int (length initTokens) \<rparr> \<rparr>,
           initialTextLength = initTextLength,
           finalTextLength = finTextLength,
           textRetention = retention \<rparr>)"

definition generateVisibilityScore :: "'a Report_scheme \<Rightarrow> VisibilityScore" where
  "generateVisibilityScore analysis =
     (let readability = CoreMetrics.citationReadability (Report.metrics analysis);
          sim = CoreMetrics.similarity (Report.metrics analysis);
          gain = CoreMetrics.contentGain (Report.metrics analysis);
          readabilityWeight = 5 / 10;
          similarityWeight = 3 / 10;
          contentGainWeight = 2 / 10;
          normalizedContentGain = min 100 (max 0 (100 - ((gain - 1) * 50)));
          weightedScore = readability * readabilityWeight
                        + sim * similarityWeight
                        + normalizedContentGain * contentGainWeight;
          s = Math_round weightedScore;
          cat_descr =
            (if s \<ge> 90 then
               (''excellent'', ''Excellent - AI models can easily read and cite your content'')
             else if s \<ge> 70 then
               (''good'', ''Good - Most of your content is visible to AI models'')
             else if s \<ge> 50 then
               (''fair'', ''Fair - Some content may be missed by AI crawlers'')
             else
               (''poor'', ''Poor - Significant content is hidden from AI models''))
      in \<lparr> score = s,
           category = fst cat_descr,
           description = snd cat_descr,
           breakdown = \<lparr> Breakdown.citationReadability = readability,
                         Breakdown.similarity = sim,
                         Breakdown.contentGain = normalizedContentGain \<rparr> \<rparr>)"

section \<open>index.js\<close>

text \<open>
  \<^verbatim>\<open>analyzeVisibility\<close> first starts a dynamic import whose callback result is
  discarded; what it returns is computed by the synchronous part below, from the two
  unrounded ratios.
\<close>

definition analyzeVisibility ::
  "domLibrary \<Rightarrow> tokenizer \<Rightarrow> string \<Rightarrow> string \<Rightarrow> Options \<Rightarrow> Visibility" where
  "analyzeVisibility domLib tok initialHtml renderedHtml options =
     (let ignoreNav = orTrue (ignoreNavFooter options);
          withScore = orTrue (includeScore options);
          text1 = stripTagsToText domLib initialHtml ignoreNav;
          text2 = stripTagsToText domLib renderedHtml ignoreNav;
          words1 = countWords tok text1;
          words2 = countWords tok text2;
          sim = calculateSimilarity tok text1 text2 ''word'';
          gain = (if words1 > 0 then real words2 / real words1
                  else (if words2 > 0 then real words2 else 1));
          missing = nat \<bar>int words2 - int words1\<bar>;
          readability = (if words1 = 0 then 100
                         else (if words2 > 0
                               then min 100 ((real words1 / real words2) * 100) else 0));
          m = \<lparr> CoreMetrics.contentGain = round1 gain,
                missingWords = missing,
                CoreMetrics.citationReadability = real_of_int (Math_round readability),
                CoreMetrics.similarity = round1 sim,
                wordCount = \<lparr> initial = words1,
                              final = words2,
                              difference = int words2 - int words1 \<rparr> \<rparr>;
          vs = (if withScore then
                  (let s = Math_round (readability * (5 / 10)
                                     + sim * (3 / 10)
                                     + min 100 (max 0 (100 - ((gain - 1) * 50))) * (2 / 10));
                       cat_descr =
                         (if s \<ge> 90 then
                            (''excellent'', ''Excellent - AI models can easily read and cite your content'')
                          else if s \<ge> 70 then
                            (''good'', ''Good - Most of your content is visible to AI models'')
                          else if s \<ge> 50 then
                            (''fair'', ''Fair - Some content may be missed by AI crawlers'')
                          else
                            (''poor'', ''Poor - Significant content is hidden from AI models''))
                   in Some \<lparr> score = s,
                             category = fst cat_descr,
                             description = snd cat_descr \<rparr>)
                else None)
      in \<lparr> initialText = text1,
           finalText = text2,
           Report.metrics = m,
           visibilityScore = vs \<rparr>)"

text \<open>
  \<^verbatim>\<open>generateRecommendations\<close> pushes onto an array that starts empty; each
  \<open>r\<close> below is the array after one \<^verbatim>\<open>if\<close> statement.
\<close>

definition generateRecommendations :: "'a CoreMetrics_scheme \<Rightarrow> string list" where
  "generateRecommendations m =
     (let r0 = [];
          r1 = (if CoreMetrics.citationReadability m < 50
                then r0 @ [''Consider implementing server-side rendering (SSR) to improve content visibility for AI crawlers'']
                else r0);
          r2 = (if CoreMetrics.contentGain m > 3
                then r1 @ [''Significant content is loaded via JavaScript - ensure critical content is present in initial HTML'']
                else r1);
          r3 = (if missingWords m > 1000
                then r2 @ [''Large amount of content is missing from initial HTML - review your content loading strategy'']
                else r2);
          r4 = (if CoreMetrics.citationReadability m \<ge> 80 \<and> CoreMetrics.contentGain m < 15 / 10
                then r3 @ [''Great job! Your content is well-optimized for AI visibility and citations'']
                else r3)
      in r4)"

text \<open>
  In \<^verbatim>\<open>getCitationReadiness\<close> each of the first three fields is
  \<^verbatim>\<open>analysis.visibilityScore?.field || fallback\<close>: the fallback is taken when the
  score object is absent and when the field is falsy (the number 0, the empty string).
\<close>

definition getCitationReadiness ::
  "domLibrary \<Rightarrow> tokenizer \<Rightarrow> string \<Rightarrow> string \<Rightarrow> Options \<Rightarrow> Readiness" where
  "getCitationReadiness domLib tok initialHtml renderedHtml options =
     (let analysis = analyzeVisibility domLib tok initialHtml renderedHtml options
      in \<lparr> score = (case visibilityScore analysis of
                        None \<Rightarrow> 0
                      | Some v \<Rightarrow> if score v = 0 then 0 else score v),
           category = (case visibilityScore analysis of
                         None \<Rightarrow> ''unknown''
                       | Some v \<Rightarrow> if category v = [] then ''unknown'' else category v),
           description = (case visibilityScore analysis of
                            None \<Rightarrow> ''Analysis completed''
                          | Some v \<Rightarrow> if description v = [] then ''Analysis completed''
                                     else description v),
           Readiness.metrics =
             \<lparr> CoreMetrics.contentGain = CoreMetrics.contentGain (Report.metrics analysis),
               missingWords = missingWords (Report.metrics analysis),
               CoreMetrics.citationReadability =
                 CoreMetrics.citationReadability (Report.metrics analysis),
               CoreMetrics.similarity = CoreMetrics.similarity (Report.metrics analysis) \<rparr>,
           recommendations = generateRecommendations (Report.metrics analysis) \<rparr>)"

section \<open>Inputs for the worked instances\<close>

text \<open>
  A document without markup whose words are separated by single spaces: the DOM library
  returns its text unchanged.
\<close>

definition plainText :: domLibrary where
  "plainText htmlContent ignoreNav returnText = htmlContent"

text \<open>
  Modelled from the spec: \<^verbatim>\<open>tokenize\<close> of the missing \<^verbatim>\<open>tokenizer.js\<close>, on
  the texts of the instances below, which are words of letters separated by single
  spaces, with no line break, URL or punctuation. On such a text steps 1 to 3 of the
  word pipeline of section 4.1 change nothing and steps 4 and 5 split it at the spaces
  into its non-empty tokens; in line mode the one line is the one token, unless empty.
\<close>

fun splitWords :: "string \<Rightarrow> string \<Rightarrow> string list" where
  "splitWords cur [] = (if cur = [] then [] else [cur])"
| "splitWords cur (c # cs) =
     (if c = CHR '' '' then (if cur = [] then splitWords [] cs else cur # splitWords [] cs)
      else splitWords (cur @ [c]) cs)"

definition lettersTokenize :: tokenizer where
  "lettersTokenize txt mode =
     (if mode = ''line'' then (if txt = [] then [] else [txt])
      else splitWords [] txt)"

section \<open>The specification's formulas\<close>





definition suggestSSR :: string where
  "suggestSSR = ''Consider implementing server-side rendering (SSR) to improve content visibility for AI crawlers''"

definition flagClientSideLoading :: string where
  "flagClientSideLoading = ''Significant content is loaded via JavaScript - ensure critical content is present in initial HTML''"

definition flagContentGap :: string where
  "flagContentGap = ''Large amount of content is missing from initial HTML - review your content loading strategy''"

definition acknowledge :: string where
  "acknowledge = ''Great job! Your content is well-optimized for AI visibility and citations''"

text \<open>The rule table: each rule is a condition on the metrics and the message it adds.\<close>

definition specRuleTable :: "((Metrics \<Rightarrow> bool) \<times> string) list" where
  "specRuleTable =
     [(\<lambda>m. CoreMetrics.citationReadability m < 50, suggestSSR),
      (\<lambda>m. CoreMetrics.contentGain m > 3, flagClientSideLoading),
      (\<lambda>m. missingWords m > 1000, flagContentGap),
      (\<lambda>m. CoreMetrics.citationReadability m \<ge> 80 \<and> CoreMetrics.contentGain m < 15 / 10,
       acknowledge)]"

text \<open>The rules that apply to a metrics record, in the order of the table.\<close>

definition specRecommendations :: "Metrics \<Rightarrow> string list" where
  "specRecommendations m = map snd (filter (\<lambda>rule. fst rule m) specRuleTable)"

text \<open>The empty options object \<^verbatim>\<open>{}\<close>, the default of every entry point.\<close>

definition noOptions :: Options where
  "noOptions = \<lparr> ignoreNavFooter = None, includeScore = None \<rparr>"


definition hiddenContentMetrics :: Metrics where
  "hiddenContentMetrics =
     \<lparr> CoreMetrics.contentGain = 5,
       missingWords = 2000,
       CoreMetrics.citationReadability = 10,
       CoreMetrics.similarity = 0,
       wordCount = \<lparr> initial = 500, final = 2500, difference = 2000 \<rparr> \<rparr>"

section \<open>Auxiliary facts\<close>


lemma round1_one: "round1 1 = 1"
  by (simp add: round1_def Math_round_def)

lemma round1_hundred: "round1 100 = 100"
  by (simp add: round1_def Math_round_def)

lemma round1_of_nat: "round1 (real n) = real n"
proof -
  have "\<lfloor>real n * 10 + 1 / 2\<rfloor> = int n * 10"
    by (rule floor_unique) simp_all
  then show ?thesis
    by (simp add: round1_def Math_round_def)
qed

lemma lcsTable_column_zero: "lcsTable xs ys i 0 = 0"
  by (cases i) simp_all

lemma lcsTable_swap: "lcsTable xs ys i j = lcsTable ys xs j i"
  by (induction xs ys i j rule: lcsTable.induct)
     (auto simp: max.commute lcsTable_column_zero)

lemma lcsLength_swap: "lcsLength xs ys = lcsLength ys xs"
  by (simp add: lcsLength_def lcsTable_swap [of xs ys])

lemma calculateSimilarity_same_text: "calculateSimilarity tok t t mode = 100"
  by (simp add: calculateSimilarity_def)

lemmas instance_defs =
  noOptions_def orTrue_def stripTagsToText_def filterHtmlContent_def plainText_def
  lettersTokenize_def countWords_def

section \<open>Citation readability\<close>



section \<open>The visibility score\<close>





section \<open>The metrics of analyzeContentDifference\<close>

text \<open>
  Claim C4, as stated: the \<^verbatim>\<open>contentGain\<close> of the returned metrics is
  \<open>count2 / count1\<close> when \<open>count1 > 0\<close>. It fails for a first text of three words and
  a second text of one word: the ratio is one third, the field holds 0.3.
\<close>

theorem contentGain_not_raw_ratio:
  "length (lettersTokenize ''a b c'' ''word'') = 3
   \<and> length (lettersTokenize ''a'' ''word'') = 1
   \<and> CoreMetrics.contentGain (Report.metrics
         (analyzeContentDifference plainText lettersTokenize ''a b c'' ''a'' noOptions))
       \<noteq> real (length (lettersTokenize ''a'' ''word''))
           / real (length (lettersTokenize ''a b c'' ''word''))"
  by (simp add: analyzeContentDifference_def Let_def round1_def Math_round_def instance_defs)

text \<open>
  Claim C4, amended. For every pair of input texts, the \<^verbatim>\<open>contentGain\<close> of the
  metrics returned by \<^verbatim>\<open>analyzeContentDifference\<close> is \<open>count2 / count1\<close> rounded
  to one decimal (\<^verbatim>\<open>Math.round(x * 10) / 10\<close>) when the first text's word-token
  count \<open>count1\<close> is positive, and 1 when \<open>count1\<close> is 0.
\<close>

theorem contentGain_rounded_ratio:
  "CoreMetrics.contentGain (Report.metrics
       (analyzeContentDifference domLib tok initHtml finHtml options)) =
     (let ignoreNav = orTrue (ignoreNavFooter options);
          count1 = length (tok (stripTagsToText domLib initHtml ignoreNav) ''word'');
          count2 = length (tok (stripTagsToText domLib finHtml ignoreNav) ''word'')
      in if count1 > 0 then round1 (real count2 / real count1) else 1)"
  by (simp add: analyzeContentDifference_def Let_def round1_one)

text \<open>Three words against one: the field holds 0.3.\<close>

theorem contentGain_rounded_ratio_witness:
  "CoreMetrics.contentGain (Report.metrics
       (analyzeContentDifference plainText lettersTokenize ''a b c'' ''a'' noOptions)) = 3 / 10"
  using contentGain_rounded_ratio [of plainText lettersTokenize "''a b c''" "''a''" noOptions]
  by (simp add: Let_def round1_def Math_round_def instance_defs)

text \<open>
  Claim C3, as stated: for every nonempty text \<open>h\<close>, the metrics of
  \<^verbatim>\<open>analyzeContentDifference("", h)\<close> have \<^verbatim>\<open>citationReadability == 100\<close> and
  \<^verbatim>\<open>contentGain >= 1\<close>. It fails for the one-word text \<open>hello\<close>, where the
  readability is 0.
\<close>

theorem empty_initial_readability_not_100:
  "''hello'' \<noteq> []
   \<and> \<not> (CoreMetrics.citationReadability (Report.metrics
            (analyzeContentDifference plainText lettersTokenize [] ''hello'' noOptions)) = 100
        \<and> CoreMetrics.contentGain (Report.metrics
            (analyzeContentDifference plainText lettersTokenize [] ''hello'' noOptions)) \<ge> 1)"
  by (simp add: analyzeContentDifference_def Let_def round1_def Math_round_def
        calculateCitationReadability_def instance_defs)

text \<open>
  Claim C3, amended. With a tokenizer that yields no token on the empty text, for every
  text \<open>h\<close> the metrics of \<^verbatim>\<open>analyzeContentDifference("", h)\<close> have
  \<^verbatim>\<open>contentGain == 1\<close> (so \<^verbatim>\<open>contentGain >= 1\<close>), and
  \<^verbatim>\<open>citationReadability\<close> is 100 when the text of \<open>h\<close> has no word token and 0
  when it has one or more.
\<close>

theorem empty_initial_metrics:
  assumes "tok [] ''word'' = []"
  shows "CoreMetrics.contentGain (Report.metrics
             (analyzeContentDifference domLib tok [] h options)) = 1
       \<and> CoreMetrics.citationReadability (Report.metrics
             (analyzeContentDifference domLib tok [] h options)) =
           (if length (tok (stripTagsToText domLib h (orTrue (ignoreNavFooter options))) ''word'') = 0
            then 100 else 0)"
  using assms
  by (simp add: analyzeContentDifference_def Let_def round1_one stripTagsToText_def
        filterHtmlContent_def calculateCitationReadability_def Math_round_def)

text \<open>The empty text against \<open>hello\<close>: gain 1, readability 0.\<close>

theorem empty_initial_metrics_witness:
  "lettersTokenize [] ''word'' = []
   \<and> CoreMetrics.contentGain (Report.metrics
         (analyzeContentDifference plainText lettersTokenize [] ''hello'' noOptions)) = 1
   \<and> CoreMetrics.citationReadability (Report.metrics
         (analyzeContentDifference plainText lettersTokenize [] ''hello'' noOptions)) = 0"
proof -
  have no_token: "lettersTokenize [] ''word'' = []"
    by (simp add: lettersTokenize_def)
  show ?thesis
    using no_token
      empty_initial_metrics [where tok = lettersTokenize and domLib = plainText
        and h = "''hello''" and options = noOptions, OF no_token]
    by (simp add: instance_defs)
qed

text \<open>
  Claim C5. For every text \<open>h\<close>, \<^verbatim>\<open>analyzeContentDifference(h, h)\<close> yields
  \<^verbatim>\<open>contentGain == 1\<close>, \<^verbatim>\<open>missingWords == 0\<close> and
  \<^verbatim>\<open>citationReadability == 100\<close>, and \<^verbatim>\<open>generateVisibilityScore\<close> of the result
  has a score above 90.
\<close>

theorem identical_inputs_metrics:
  "CoreMetrics.contentGain (Report.metrics
       (analyzeContentDifference domLib tok h h options)) = 1
   \<and> missingWords (Report.metrics (analyzeContentDifference domLib tok h h options)) = 0
   \<and> CoreMetrics.citationReadability (Report.metrics
       (analyzeContentDifference domLib tok h h options)) = 100
   \<and> score (generateVisibilityScore (analyzeContentDifference domLib tok h h options)) > 90"
  by (simp add: analyzeContentDifference_def generateVisibilityScore_def Let_def
        calculateSimilarity_same_text round1_one round1_hundred
        calculateCitationReadability_def Math_round_def)

text \<open>The two-word text \<open>a b\<close> against itself scores 100.\<close>

theorem identical_inputs_metrics_witness:
  "CoreMetrics.contentGain (Report.metrics
       (analyzeContentDifference plainText lettersTokenize ''a b'' ''a b'' noOptions)) = 1
   \<and> missingWords (Report.metrics
       (analyzeContentDifference plainText lettersTokenize ''a b'' ''a b'' noOptions)) = 0
   \<and> CoreMetrics.citationReadability (Report.metrics
       (analyzeContentDifference plainText lettersTokenize ''a b'' ''a b'' noOptions)) = 100
   \<and> score (generateVisibilityScore
       (analyzeContentDifference plainText lettersTokenize ''a b'' ''a b'' noOptions)) = 100"
proof -
  have "score (generateVisibilityScore
          (analyzeContentDifference plainText lettersTokenize ''a b'' ''a b'' noOptions)) = 100"
    by (simp add: analyzeContentDifference_def generateVisibilityScore_def Let_def
          calculateSimilarity_same_text round1_one round1_hundred
          calculateCitationReadability_def Math_round_def instance_defs)
  then show ?thesis
    using identical_inputs_metrics [of plainText lettersTokenize "''a b''" noOptions]
    by simp
qed

section \<open>Similarity\<close>

text \<open>
  Claim C6. For every pair of texts \<open>t1\<close> and \<open>t2\<close>,
  \<^verbatim>\<open>calculateSimilarity(t1, t2) == calculateSimilarity(t2, t1)\<close>.
\<close>

theorem calculateSimilarity_symmetric:
  "calculateSimilarity tok t1 t2 mode = calculateSimilarity tok t2 t1 mode"
  by (auto simp add: calculateSimilarity_def Let_def
        lcsLength_swap [of "tok t1 mode"] add.commute)

text \<open>One common word out of two on each side: 50 in both directions.\<close>

theorem calculateSimilarity_symmetric_witness:
  "calculateSimilarity lettersTokenize ''a b'' ''b c'' ''word'' = 50
   \<and> calculateSimilarity lettersTokenize ''b c'' ''a b'' ''word'' = 50"
proof -
  have "calculateSimilarity lettersTokenize ''a b'' ''b c'' ''word'' = 50"
    by (simp add: calculateSimilarity_def Let_def lcsLength_def lettersTokenize_def
          round1_def Math_round_def)
  then show ?thesis
    using calculateSimilarity_symmetric [of lettersTokenize "''a b''" "''b c''" "''word''"]
    by simp
qed

section \<open>The top-level entry points\<close>

text \<open>
  Claim C9. When the initial text tokenizes to zero words and the final text to
  \<open>n > 0\<close> words, \<^verbatim>\<open>analyzeVisibility\<close> returns \<^verbatim>\<open>metrics.contentGain\<close> equal
  to \<open>n\<close>, the final word count (rounding to one decimal leaves it as it is), and so
  not 1 whenever \<open>n\<close> is above 1.
\<close>

theorem analyzeVisibility_empty_initial_gain:
  assumes "countWords tok
             (stripTagsToText domLib initialHtml (orTrue (ignoreNavFooter options))) = 0"
    and "countWords tok
           (stripTagsToText domLib renderedHtml (orTrue (ignoreNavFooter options))) = n"
    and "n > 0"
  shows "CoreMetrics.contentGain (Report.metrics
             (analyzeVisibility domLib tok initialHtml renderedHtml options)) = real n
       \<and> (1 < n \<longrightarrow>
            CoreMetrics.contentGain (Report.metrics
              (analyzeVisibility domLib tok initialHtml renderedHtml options)) \<noteq> 1)"
  using assms
  by (simp add: analyzeVisibility_def Let_def round1_of_nat)

text \<open>The empty document against the two-word text \<open>a b\<close>: a gain of 2.\<close>

theorem analyzeVisibility_empty_initial_gain_witness:
  "countWords lettersTokenize
     (stripTagsToText plainText [] (orTrue (ignoreNavFooter noOptions))) = 0
   \<and> countWords lettersTokenize
       (stripTagsToText plainText ''a b'' (orTrue (ignoreNavFooter noOptions))) = 2
   \<and> CoreMetrics.contentGain (Report.metrics
         (analyzeVisibility plainText lettersTokenize [] ''a b'' noOptions)) = 2
   \<and> CoreMetrics.contentGain (Report.metrics
         (analyzeVisibility plainText lettersTokenize [] ''a b'' noOptions)) \<noteq> 1"
proof -
  have none: "countWords lettersTokenize
      (stripTagsToText plainText [] (orTrue (ignoreNavFooter noOptions))) = 0"
    by (simp add: instance_defs)
  have two: "countWords lettersTokenize
      (stripTagsToText plainText ''a b'' (orTrue (ignoreNavFooter noOptions))) = 2"
    by (simp add: instance_defs)
  have pos: "(2::nat) > 0"
    by simp
  show ?thesis
    using none two analyzeVisibility_empty_initial_gain [OF none two pos]
    by simp
qed

text \<open>
  Claim C10. For every pair of HTML inputs, \<^verbatim>\<open>getCitationReadiness\<close> called with
  \<^verbatim>\<open>includeScore: false\<close> returns score 0, category \<open>unknown\<close> and description
  \<open>Analysis completed\<close>; the category is none of the four named categories.
\<close>

theorem getCitationReadiness_without_score:
  "score (getCitationReadiness domLib tok initialHtml renderedHtml
            (options\<lparr>includeScore := Some False\<rparr>)) = 0
   \<and> category (getCitationReadiness domLib tok initialHtml renderedHtml
            (options\<lparr>includeScore := Some False\<rparr>)) = ''unknown''
   \<and> description (getCitationReadiness domLib tok initialHtml renderedHtml
            (options\<lparr>includeScore := Some False\<rparr>)) = ''Analysis completed''
   \<and> category (getCitationReadiness domLib tok initialHtml renderedHtml
            (options\<lparr>includeScore := Some False\<rparr>))
         \<notin> {''excellent'', ''good'', ''fair'', ''poor''}"
  by (simp add: getCitationReadiness_def analyzeVisibility_def Let_def orTrue_def)

text \<open>The options object \<^verbatim>\<open>{ includeScore: false }\<close> on two one-word documents.\<close>

theorem getCitationReadiness_without_score_witness:
  "score (getCitationReadiness plainText lettersTokenize ''a'' ''b''
            \<lparr> ignoreNavFooter = None, includeScore = Some False \<rparr>) = 0
   \<and> category (getCitationReadiness plainText lettersTokenize ''a'' ''b''
            \<lparr> ignoreNavFooter = None, includeScore = Some False \<rparr>) = ''unknown''
   \<and> description (getCitationReadiness plainText lettersTokenize ''a'' ''b''
            \<lparr> ignoreNavFooter = None, includeScore = Some False \<rparr>) = ''Analysis completed''"
  using getCitationReadiness_without_score
          [of plainText lettersTokenize "''a''" "''b''" noOptions]
  by (simp add: noOptions_def)

text \<open>
  Claim C7. The recommendation list is produced by a fixed rule table over the metrics:
  \<^verbatim>\<open>citationReadability < 50\<close> adds the server-side-rendering suggestion,
  \<^verbatim>\<open>contentGain > 3\<close> the client-side-loading flag, \<^verbatim>\<open>missingWords > 1000\<close> the
  content-gap flag, and \<^verbatim>\<open>citationReadability >= 80\<close> with
  \<^verbatim>\<open>contentGain < 1.5\<close> the acknowledgment. Each rule fires exactly when its own
  condition holds, whatever the other rules do, and the messages come in the order of
  the table.
\<close>

theorem generateRecommendations_rule_table:
  "generateRecommendations m = specRecommendations m"
  by (simp add: generateRecommendations_def specRecommendations_def specRuleTable_def Let_def
        suggestSSR_def flagClientSideLoading_def flagContentGap_def acknowledge_def)

text \<open>Three rules fire together, in table order.\<close>

theorem generateRecommendations_rule_table_witness:
  "generateRecommendations hiddenContentMetrics =
     [suggestSSR, flagClientSideLoading, flagContentGap]"
  using generateRecommendations_rule_table [of hiddenContentMetrics]
  by (simp add: specRecommendations_def specRuleTable_def hiddenContentMetrics_def)

end
